theory Spec2Isabelle
  imports Complex_Main "HOL-Library.Product_Lexorder" "HOL-Library.Sublist" "HOL-Library.AList"
    "HOL-Library.Multiset"
begin

section \<open>Values of the dashboard\<close>

text \<open>
  The embedding follows \<^verbatim>\<open>dashboard.py\<close>: \<^verbatim>\<open>load_data\<close>, the date filter of the
  module-level block and the series that the chart tab hands to the chart widget.
  Numbers are idealised: a finite float is a real number (rounding and overflow of
  IEEE doubles are not modelled), and the three special floats are explicit values.
  The frame that \<^verbatim>\<open>pd.read_csv(path, parse_dates=["Date"])\<close> returns is the input of the
  model: its \<^verbatim>\<open>Date\<close> column holds timestamps without time zone, its four price columns
  hold finite numbers, its \<^verbatim>\<open>Direction\<close> column holds strings, and a cell of
  \<^verbatim>\<open>Support\<close>/\<^verbatim>\<open>Resistance\<close> is a string or a float. Missing dates, prices and
  directions are outside the model.
\<close>

datatype error = SyntaxError | ValueError | TypeError | NotModelled

datatype flt = Fin real | NaN | PosInf | NegInf

text \<open>A pandas timestamp: a calendar day and the time of day in nanoseconds.\<close>

record timestamp =
  year :: nat
  month :: nat
  day :: nat
  tod :: nat

text \<open>A \<^verbatim>\<open>datetime.date\<close> of the sidebar's date input: year, month, day.\<close>

type_synonym date = "nat \<times> nat \<times> nat"

definition ts_key :: "timestamp \<Rightarrow> nat \<times> nat \<times> nat \<times> nat" where
  "ts_key t = (year t, month t, day t, tod t)"

text \<open>\<^verbatim>\<open>pd.to_datetime(d)\<close> of a date is midnight of that day.\<close>

definition to_datetime :: "date \<Rightarrow> timestamp" where
  "to_datetime d = (case d of (y, m, dd) \<Rightarrow> \<lparr>year = y, month = m, day = dd, tod = 0\<rparr>)"

definition date_of :: "timestamp \<Rightarrow> date" where
  "date_of t = (year t, month t, day t)"

definition valid_ts :: "timestamp \<Rightarrow> bool" where
  "valid_ts t = (1677 \<le> year t \<and> year t \<le> 2262 \<and> 1 \<le> month t \<and> month t \<le> 12
     \<and> 1 \<le> day t \<and> day t \<le> 31)"

subsection \<open>\<^verbatim>\<open>strftime('%Y-%m-%d')\<close>\<close>

definition digit_char :: "nat \<Rightarrow> char" where
  "digit_char n = ''0123456789'' ! (n mod 10)"

text \<open>\<^verbatim>\<open>%m\<close> and \<^verbatim>\<open>%d\<close>: two digits, zero padded.\<close>

definition pad2 :: "nat \<Rightarrow> string" where
  "pad2 n = [digit_char (n div 10), digit_char n]"

text \<open>\<^verbatim>\<open>%Y\<close>: the year with century; a timestamp's year has four digits.\<close>

definition pad4 :: "nat \<Rightarrow> string" where
  "pad4 n = [digit_char (n div 1000), digit_char (n div 100), digit_char (n div 10), digit_char n]"

definition strftime :: "timestamp \<Rightarrow> string" where
  "strftime t = pad4 (year t) @ ''-'' @ pad2 (month t) @ ''-'' @ pad2 (day t)"

definition is_digit :: "char \<Rightarrow> bool" where
  "is_digit c = (c \<in> set ''0123456789'')"

text \<open>The shape of an ISO 8601 calendar date, \<^verbatim>\<open>YYYY-MM-DD\<close>.\<close>

definition iso8601_date :: "string \<Rightarrow> bool" where
  "iso8601_date s = (case s of
       [y1, y2, y3, y4, h1, m1, m2, h2, d1, d2] \<Rightarrow>
         list_all is_digit [y1, y2, y3, y4, m1, m2, d1, d2] \<and> h1 = CHR ''-'' \<and> h2 = CHR ''-''
     | _ \<Rightarrow> False)"

definition digit_val :: "char \<Rightarrow> nat" where
  "digit_val c = (case map_of
      [(CHR ''0'', 0), (CHR ''1'', 1), (CHR ''2'', 2), (CHR ''3'', 3), (CHR ''4'', 4),
       (CHR ''5'', 5), (CHR ''6'', 6), (CHR ''7'', 7), (CHR ''8'', 8), (CHR ''9'', 9)] c of
     Some n \<Rightarrow> n | None \<Rightarrow> 0)"

definition nat_of_digits :: "string \<Rightarrow> nat" where
  "nat_of_digits s = foldl (\<lambda>n c. 10 * n + digit_val c) 0 s"

text \<open>Reading such a string back: the year, the month and the day it writes.\<close>

definition parse_iso :: "string \<Rightarrow> date option" where
  "parse_iso s = (case s of
       [y1, y2, y3, y4, h1, m1, m2, h2, d1, d2] \<Rightarrow>
         if iso8601_date s
         then Some (nat_of_digits [y1, y2, y3, y4], nat_of_digits [m1, m2], nat_of_digits [d1, d2])
         else None
     | _ \<Rightarrow> None)"

subsection \<open>Cells of the list columns and \<^verbatim>\<open>ast.literal_eval\<close>\<close>

text \<open>A cell as read from the file: a string, or a float when the cell is not text.\<close>

datatype cell = Text string | Numeric flt

text \<open>A cell after the parsing step: a float, a list or a tuple of numbers.\<close>

datatype pyval = PFloat flt | PList "real list" | PTuple "real list"

text \<open>
  A number of the modelled fragment: an optional sign, then a decimal integer without
  a leading zero and of at most 4300 digits, or digits, a point and digits.
\<close>

definition parse_number :: "string \<Rightarrow> real option" where
  "parse_number s =
     (let (sgn, body) = (case s of
             [] \<Rightarrow> (1, s)
           | c # t \<Rightarrow> if c = CHR ''-'' then (- 1, t) else if c = CHR ''+'' then (1, t) else (1, s));
          ip = takeWhile is_digit body;
          rest = dropWhile is_digit body
      in if ip = [] then None
         else (case rest of
             [] \<Rightarrow> if (1 < length ip \<and> hd ip = CHR ''0'') \<or> 4300 < length ip then None
                   else Some (sgn * real (nat_of_digits ip))
           | c # fp \<Rightarrow>
               if c = CHR ''.'' \<and> fp \<noteq> [] \<and> list_all is_digit fp
               then Some (sgn * (real (nat_of_digits ip) + real (nat_of_digits fp) / 10 ^ length fp))
               else None))"

fun split_on :: "char \<Rightarrow> string \<Rightarrow> string list" where
  "split_on c [] = [[]]"
| "split_on c (x # xs) =
     (if x = c then [] # split_on c xs
      else (case split_on c xs of [] \<Rightarrow> [[x]] | y # ys \<Rightarrow> (x # y) # ys))"

definition lstrip :: "string \<Rightarrow> string" where
  "lstrip s = dropWhile (\<lambda>c. c = CHR '' '') s"

definition rstrip :: "string \<Rightarrow> string" where
  "rstrip s = rev (lstrip (rev s))"

text \<open>
  The items of a display: numbers separated by commas, blanks around them, an optional
  trailing comma. The result also tells whether a comma was present.
\<close>

definition parse_items :: "string \<Rightarrow> (real list \<times> bool) option" where
  "parse_items body =
     (let fs = map (\<lambda>f. rstrip (lstrip f)) (split_on CHR '','' body)
      in if fs = [[]] then Some ([], False)
         else (case those (map parse_number (if 1 < length fs \<and> last fs = [] then butlast fs else fs)) of
             None \<Rightarrow> None
           | Some xs \<Rightarrow> Some (xs, 1 < length fs)))"

definition lit_char :: "char \<Rightarrow> bool" where
  "lit_char c = (c \<in> set ''0123456789 ,.+-[]()'')"

fun balanced :: "char list \<Rightarrow> string \<Rightarrow> bool" where
  "balanced st [] = (st = [])"
| "balanced st (c # cs) =
     (if c = CHR ''['' \<or> c = CHR ''('' then balanced (c # st) cs
      else if c = CHR '']'' then (case st of [] \<Rightarrow> False | b # st' \<Rightarrow> b = CHR ''['' \<and> balanced st' cs)
      else if c = CHR '')'' then (case st of [] \<Rightarrow> False | b # st' \<Rightarrow> b = CHR ''('' \<and> balanced st' cs)
      else balanced st cs)"

text \<open>The text between an opening bracket \<open>l\<close> at the start and \<open>r\<close> at the end.\<close>

definition between :: "char \<Rightarrow> char \<Rightarrow> string \<Rightarrow> string option" where
  "between l r s =
     (if 2 \<le> length s \<and> hd s = l \<and> last s = r then Some (butlast (tl s)) else None)"

text \<open>
  \<^verbatim>\<open>ast.literal_eval\<close> belongs to the Python library; the model covers a fragment of the
  literal syntax and says so where it stops. A text over digits, blank, comma, point,
  sign and brackets
  \<^item> whose brackets do not match is a \<^verbatim>\<open>SyntaxError\<close>;
  \<^item> that is a number, a list display \<^verbatim>\<open>[a, b]\<close>, a tuple display \<^verbatim>\<open>(a, b)\<close> or a bare
    tuple \<^verbatim>\<open>a, b\<close> of numbers evaluates to that value (\<^verbatim>\<open>(a)\<close> is the number \<open>a\<close>).
  Every other text is \<^verbatim>\<open>NotModelled\<close>: the model gives no verdict on it (this includes a
  text that starts with a blank, which Python strips from version 3.10 only).
\<close>

definition literal_eval :: "string \<Rightarrow> error + pyval" where
  "literal_eval s =
     (if \<not> list_all lit_char s then Inl NotModelled
      else if \<not> balanced [] s then Inl SyntaxError
      else if s \<noteq> [] \<and> hd s = CHR '' '' then Inl NotModelled
      else (let t = rstrip s in
        case between CHR ''['' CHR '']'' t of
          Some body \<Rightarrow>
            (case parse_items body of
               Some (xs, c) \<Rightarrow> Inr (PList xs)
             | None \<Rightarrow> Inl NotModelled)
        | None \<Rightarrow>
            (case between CHR ''('' CHR '')'' t of
               Some body \<Rightarrow>
                 (case parse_items body of
                    Some (xs, c) \<Rightarrow>
                      if \<not> c \<and> length xs = 1 then Inr (PFloat (Fin (hd xs))) else Inr (PTuple xs)
                  | None \<Rightarrow> Inl NotModelled)
             | None \<Rightarrow>
                 (case parse_items t of
                    Some (xs, c) \<Rightarrow>
                      if c then Inr (PTuple xs)
                      else if length xs = 1 then Inr (PFloat (Fin (hd xs)))
                      else Inl NotModelled
                  | None \<Rightarrow> Inl NotModelled))))"

text \<open>The lambda of \<^verbatim>\<open>load_data\<close>: \<^verbatim>\<open>ast.literal_eval(x) if isinstance(x, str) else x\<close>.\<close>

definition parse_cell :: "cell \<Rightarrow> error + pyval" where
  "parse_cell x = (case x of Text s \<Rightarrow> literal_eval s | Numeric f \<Rightarrow> Inr (PFloat f))"

text \<open>
  Python's \<^verbatim>\<open>min\<close> and \<^verbatim>\<open>max\<close> of one argument: a float is not iterable
  (\<^verbatim>\<open>TypeError\<close>), an empty sequence has no minimum (\<^verbatim>\<open>ValueError\<close>).
\<close>

definition py_min :: "pyval \<Rightarrow> error + real" where
  "py_min v = (case v of
       PFloat f \<Rightarrow> Inl TypeError
     | PList xs \<Rightarrow> (case xs of [] \<Rightarrow> Inl ValueError | y # ys \<Rightarrow> Inr (fold min ys y))
     | PTuple xs \<Rightarrow> (case xs of [] \<Rightarrow> Inl ValueError | y # ys \<Rightarrow> Inr (fold min ys y)))"

definition py_max :: "pyval \<Rightarrow> error + real" where
  "py_max v = (case v of
       PFloat f \<Rightarrow> Inl TypeError
     | PList xs \<Rightarrow> (case xs of [] \<Rightarrow> Inl ValueError | y # ys \<Rightarrow> Inr (fold max ys y))
     | PTuple xs \<Rightarrow> (case xs of [] \<Rightarrow> Inl ValueError | y # ys \<Rightarrow> Inr (fold max ys y)))"

section \<open>The data frame\<close>

text \<open>
  A row of the frame read from the file (\<open>'c\<close> is what the two list columns hold), and a
  row of the frame that \<^verbatim>\<open>load_data\<close> returns, with the six derived columns.
\<close>

record 'c csv_row =
  Date :: timestamp
  Open :: real
  High :: real
  Low :: real
  Close :: real
  Support :: 'c
  Resistance :: 'c
  Direction :: string

record row = "pyval csv_row" +
  Support_min :: real
  Support_max :: real
  Resistance_min :: real
  Resistance_max :: real
  Daily_Return :: flt
  MA20 :: flt

text \<open>\<^verbatim>\<open>Series.apply(f)\<close>: \<open>f\<close> on every cell in row order; the first exception ends it.\<close>

fun apply_col :: "('a \<Rightarrow> error + 'b) \<Rightarrow> 'a list \<Rightarrow> error + 'b list" where
  "apply_col f [] = Inr []"
| "apply_col f (x # xs) =
     (case f x of
        Inl e \<Rightarrow> Inl e
      | Inr y \<Rightarrow> (case apply_col f xs of Inl e \<Rightarrow> Inl e | Inr ys \<Rightarrow> Inr (y # ys)))"

subsection \<open>\<^verbatim>\<open>pct_change\<close> and \<^verbatim>\<open>rolling(window).mean()\<close>\<close>

text \<open>Float division of two finite numbers: a zero divisor gives an infinity or NaN.\<close>

definition fdiv :: "real \<Rightarrow> real \<Rightarrow> flt" where
  "fdiv a b = (if b = 0 then (if a = 0 then NaN else if 0 < a then PosInf else NegInf)
               else Fin (a / b))"

text \<open>Subtracting a number or scaling by a positive number leaves NaN and infinities.\<close>

definition lift_fin :: "(real \<Rightarrow> real) \<Rightarrow> flt \<Rightarrow> flt" where
  "lift_fin f x = (case x of Fin r \<Rightarrow> Fin (f r) | _ \<Rightarrow> x)"

text \<open>\<^verbatim>\<open>Series.shift(1)\<close>: every value moves one row down, the first row is missing.\<close>

definition shift1 :: "real list \<Rightarrow> real option list" where
  "shift1 xs = take (length xs) (None # map Some xs)"

text \<open>\<^verbatim>\<open>pct_change()\<close> is \<^verbatim>\<open>data / data.shift(1) - 1\<close>.\<close>

definition pct_change :: "real list \<Rightarrow> flt list" where
  "pct_change xs =
     map (\<lambda>(c, p). case p of None \<Rightarrow> NaN | Some q \<Rightarrow> lift_fin (\<lambda>x. x - 1) (fdiv c q))
         (zip xs (shift1 xs))"

text \<open>
  \<^verbatim>\<open>rolling(window=w).mean()\<close>: \<^verbatim>\<open>min_periods\<close> is the window, so a row with fewer than
  \<open>w\<close> rows up to it has NaN, and the others have the mean of the last \<open>w\<close> values.
\<close>

definition rolling_mean :: "nat \<Rightarrow> real list \<Rightarrow> flt list" where
  "rolling_mean w xs =
     map (\<lambda>i. if i + 1 < w then NaN
               else Fin (sum_list (take w (drop (i + 1 - w) xs)) / real w))
         [0..<length xs]"

subsection \<open>\<^verbatim>\<open>load_data\<close>\<close>

text \<open>
  \<^verbatim>\<open>sort_values("Date")\<close> is a sort by the timestamp; the order it gives to rows of equal
  timestamp is numpy's, and the model takes the stable one.
\<close>

definition load_data :: "cell csv_row list \<Rightarrow> error + row list" where
  "load_data csv =
     (let df = sort_key (ts_key \<circ> Date) csv in
      case apply_col parse_cell (map Support df) of Inl e \<Rightarrow> Inl e | Inr sups \<Rightarrow>
      case apply_col parse_cell (map Resistance df) of Inl e \<Rightarrow> Inl e | Inr res \<Rightarrow>
      case apply_col py_min sups of Inl e \<Rightarrow> Inl e | Inr smin \<Rightarrow>
      case apply_col py_max sups of Inl e \<Rightarrow> Inl e | Inr smax \<Rightarrow>
      case apply_col py_min res of Inl e \<Rightarrow> Inl e | Inr rmin \<Rightarrow>
      case apply_col py_max res of Inl e \<Rightarrow> Inl e | Inr rmax \<Rightarrow>
      let dr = map (lift_fin (\<lambda>x. x * 100)) (pct_change (map Close df));
          ma = rolling_mean 20 (map Close df)
      in Inr (map (\<lambda>(r, s, t, s0, s1, t0, t1, d, m).
           \<lparr>Date = Date r, Open = Open r, High = High r, Low = Low r, Close = Close r,
            Support = s, Resistance = t, Direction = Direction r,
            Support_min = s0, Support_max = s1, Resistance_min = t0, Resistance_max = t1,
            Daily_Return = d, MA20 = m\<rparr>)
          (zip df (zip sups (zip res (zip smin (zip smax (zip rmin (zip rmax (zip dr ma))))))))))"

subsection \<open>The date filter\<close>

text \<open>
  \<^verbatim>\<open>date_range\<close> is what the date input returns: no, one or two dates. With two, the
  rows between midnight of the first and midnight of the second are kept.
\<close>

definition date_filter :: "row list \<Rightarrow> date list \<Rightarrow> row list" where
  "date_filter df date_range =
     (if length date_range = 2
      then (let start = date_range ! 0; end = date_range ! 1 in
            filter (\<lambda>r. ts_key (to_datetime start) \<le> ts_key (Date r)
                       \<and> ts_key (Date r) \<le> ts_key (to_datetime end)) df)
      else df)"

section \<open>The chart tab\<close>

text \<open>
  \<^verbatim>\<open>to_dict(orient='records')\<close> turns every row of a frame into a dictionary from
  column name to value, in column order. The columns of the loaded frame are those of
  the file, in the order of the required columns, followed by the derived ones.
\<close>

datatype val = VStr string | VFloat flt | VTime timestamp | VObj pyval

type_synonym dict = "(string \<times> val) list"

definition row_dict :: "row \<Rightarrow> dict" where
  "row_dict r =
     [(''Date'', VTime (Date r)), (''Open'', VFloat (Fin (Open r))),
      (''High'', VFloat (Fin (High r))), (''Low'', VFloat (Fin (Low r))),
      (''Close'', VFloat (Fin (Close r))), (''Support'', VObj (Support r)),
      (''Resistance'', VObj (Resistance r)), (''Direction'', VStr (Direction r)),
      (''Support_min'', VFloat (Fin (Support_min r))),
      (''Support_max'', VFloat (Fin (Support_max r))),
      (''Resistance_min'', VFloat (Fin (Resistance_min r))),
      (''Resistance_max'', VFloat (Fin (Resistance_max r))),
      (''Daily_Return'', VFloat (Daily_Return r)), (''MA20'', VFloat (MA20 r))]"

text \<open>\<^verbatim>\<open>df.assign(k=v, ...)\<close>: a column of that name is replaced, a new one is appended.\<close>

definition assign :: "dict \<Rightarrow> (string \<times> val) list \<Rightarrow> dict" where
  "assign d kvs = foldl (\<lambda>acc kv. AList.update (fst kv) (snd kv) acc) d kvs"

text \<open>
  \<^verbatim>\<open>frame[[k1, k2, ...]]\<close> keeps the named columns, in the order of the names; the chart
  tab only names columns that it has just assigned.
\<close>

definition select :: "string list \<Rightarrow> dict \<Rightarrow> dict" where
  "select ks d = concat (map (\<lambda>k. case map_of d k of None \<Rightarrow> [] | Some v \<Rightarrow> [(k, v)]) ks)"

definition is_na :: "val \<Rightarrow> bool" where
  "is_na v = (v = VFloat NaN)"

text \<open>\<^verbatim>\<open>dropna()\<close> drops every row that has a missing value in some column.\<close>

definition dropna :: "dict list \<Rightarrow> dict list" where
  "dropna ds = filter (\<lambda>d. \<not> list_ex (\<lambda>kv. is_na (snd kv)) d) ds"

text \<open>The dictionary appended for a row by the loop over \<^verbatim>\<open>df.iterrows()\<close>.\<close>

definition marker :: "row \<Rightarrow> dict" where
  "marker r =
     [(''time'', VStr (strftime (Date r))),
      (''position'', VStr (if Direction r = ''LONG'' then ''belowBar''
                           else if Direction r = ''SHORT'' then ''aboveBar'' else ''inBar'')),
      (''color'', VStr (if Direction r = ''LONG'' then ''green''
                        else if Direction r = ''SHORT'' then ''red'' else ''yellow'')),
      (''shape'', VStr (if Direction r = ''LONG'' then ''arrowUp''
                        else if Direction r = ''SHORT'' then ''arrowDown'' else ''circle''))]"

text \<open>
  What the chart receives: the data of the candlestick series \<^verbatim>\<open>cs\<close> and its markers,
  of the line series \<^verbatim>\<open>ls\<close> and of the two area series \<^verbatim>\<open>as1\<close>, \<^verbatim>\<open>as2\<close>. A series that
  is not added is \<open>None\<close>.
\<close>

record chart =
  cs_data :: "dict list"
  cs_markers :: "dict list option"
  ls_data :: "dict list option"
  as1_data :: "dict list option"
  as2_data :: "dict list option"

definition candlesticks :: "row list \<Rightarrow> dict list" where
  "candlesticks df =
     map (\<lambda>r. select [''time'', ''open'', ''high'', ''low'', ''close'']
                 (assign (row_dict r)
                    [(''time'', VStr (strftime (Date r))), (''open'', VFloat (Fin (Open r))),
                     (''high'', VFloat (Fin (High r))), (''low'', VFloat (Fin (Low r))),
                     (''close'', VFloat (Fin (Close r)))])) df"

definition ma20 :: "row list \<Rightarrow> dict list" where
  "ma20 df =
     dropna (map (\<lambda>r. select [''time'', ''value'']
                         (assign (row_dict r)
                            [(''time'', VStr (strftime (Date r))), (''value'', VFloat (MA20 r))])) df)"

definition supp :: "row list \<Rightarrow> dict list" where
  "supp df =
     map (\<lambda>r. assign (row_dict r)
                 [(''time'', VStr (strftime (Date r))), (''low'', VFloat (Fin (Support_min r))),
                  (''high'', VFloat (Fin (Support_max r)))]) df"

definition rs :: "row list \<Rightarrow> dict list" where
  "rs df =
     map (\<lambda>r. assign (row_dict r)
                 [(''time'', VStr (strftime (Date r))), (''low'', VFloat (Fin (Resistance_min r))),
                  (''high'', VFloat (Fin (Resistance_max r)))]) df"

definition markers :: "row list \<Rightarrow> dict list" where
  "markers df = map marker df"

definition chart_tab :: "row list \<Rightarrow> bool \<Rightarrow> bool \<Rightarrow> bool \<Rightarrow> chart" where
  "chart_tab df show_ma show_bands show_markers =
     \<lparr>cs_data = candlesticks df,
      cs_markers = (if show_markers then Some (markers df) else None),
      ls_data = (if show_ma then Some (ma20 df) else None),
      as1_data = (if show_bands then Some (supp df) else None),
      as2_data = (if show_bands then Some (rs df) else None)\<rparr>"

text \<open>
  The block under \<^verbatim>\<open>if uploaded_file:\<close> up to the chart: load, filter, build. An
  exception of \<^verbatim>\<open>load_data\<close> ends the run.
\<close>

definition dashboard ::
  "cell csv_row list \<Rightarrow> date list \<Rightarrow> bool \<Rightarrow> bool \<Rightarrow> bool \<Rightarrow> error + chart" where
  "dashboard uploaded_file date_range show_ma show_bands show_markers =
     (case load_data uploaded_file of
        Inl e \<Rightarrow> Inl e
      | Inr df \<Rightarrow> Inr (chart_tab (date_filter df date_range) show_ma show_bands show_markers))"

section \<open>Sample inputs\<close>

text \<open>
  Three days out of order, with the three kinds of direction; the frame that
  \<^verbatim>\<open>load_data\<close> makes of them is \<open>example_df\<close>.
\<close>

definition example_row :: "nat \<Rightarrow> real \<Rightarrow> string \<Rightarrow> cell csv_row" where
  "example_row d c dir =
     \<lparr>Date = \<lparr>year = 2024, month = 1, day = d, tod = 0\<rparr>,
      Open = c - 1, High = c + 2, Low = c - 2, Close = c,
      Support = Text ''[100, 105]'', Resistance = Text ''[120, 125]'', Direction = dir\<rparr>"

definition example_csv :: "cell csv_row list" where
  "example_csv = [example_row 3 99 ''HOLD'', example_row 1 100 ''LONG'', example_row 2 102 ''SHORT'']"

definition example_out :: "nat \<Rightarrow> real \<Rightarrow> string \<Rightarrow> flt \<Rightarrow> row" where
  "example_out d c dir ret =
     \<lparr>Date = \<lparr>year = 2024, month = 1, day = d, tod = 0\<rparr>,
      Open = c - 1, High = c + 2, Low = c - 2, Close = c,
      Support = PList [100, 105], Resistance = PList [120, 125], Direction = dir,
      Support_min = 100, Support_max = 105, Resistance_min = 120, Resistance_max = 125,
      Daily_Return = ret, MA20 = NaN\<rparr>"

definition example_df :: "row list" where
  "example_df = [example_out 1 100 ''LONG'' NaN, example_out 2 102 ''SHORT'' (Fin 2),
                 example_out 3 99 ''HOLD'' (Fin (- 50 / 17))]"

text \<open>Twenty consecutive days, the close of day \<open>d\<close> being \<open>d\<close>.\<close>

definition trend_csv :: "cell csv_row list" where
  "trend_csv = map (\<lambda>d. example_row d (real d) ''LONG'') [1..<21]"

text \<open>Two rows of the same day.\<close>

definition twice_csv :: "cell csv_row list" where
  "twice_csv = [example_row 1 100 ''LONG'', example_row 1 101 ''LONG'']"

definition twice_df :: "row list" where
  "twice_df = [example_out 1 100 ''LONG'' NaN, example_out 1 101 ''LONG'' (Fin 1)]"

text \<open>A single row stamped 15:30 (in nanoseconds after midnight).\<close>

definition intraday_csv :: "cell csv_row list" where
  "intraday_csv = [(example_row 2 100 ''LONG'')\<lparr>Date := \<lparr>year = 2024, month = 1, day = 2, tod = 55800000000000\<rparr>\<rparr>]"

definition intraday_df :: "row list" where
  "intraday_df = [(example_out 2 100 ''LONG'' NaN)\<lparr>Date := \<lparr>year = 2024, month = 1, day = 2, tod = 55800000000000\<rparr>\<rparr>]"




section \<open>The filter as the specification words it\<close>

text \<open>
  The specification's filter keeps the rows whose calendar day lies between the two
  dates, both included, whatever the time of day.
\<close>

definition calendar_filter :: "row list \<Rightarrow> date \<Rightarrow> date \<Rightarrow> row list" where
  "calendar_filter df start end =
     filter (\<lambda>r. start \<le> date_of (Date r) \<and> date_of (Date r) \<le> end) df"

section \<open>Columns of the loaded frame\<close>

lemma apply_col_Inr_iff: "apply_col f xs = Inr ys \<longleftrightarrow> map f xs = map Inr ys"
proof (induction xs arbitrary: ys)
  case Nil
  then show ?case by auto
next
  case (Cons x xs)
  show ?case
  proof (cases "f x")
    case (Inl e)
    then show ?thesis by (cases ys) auto
  next
    case fx: (Inr y)
    show ?thesis
    proof (cases "apply_col f xs")
      case (Inl e)
      then have "\<And>zs. map f xs \<noteq> map Inr zs" using Cons.IH by auto
      then show ?thesis using fx Inl by (cases ys) auto
    next
      case (Inr zs)
      then have "map f xs = map Inr zs" using Cons.IH by simp
      then show ?thesis using fx Inr by (cases ys) (auto simp: inj_map_eq_map)
    qed
  qed
qed

lemma apply_col_length: "apply_col f xs = Inr ys \<Longrightarrow> length ys = length xs"
  using apply_col_Inr_iff [of f xs ys] map_eq_imp_length_eq [of f xs Inr ys] by simp



lemma apply_col_fails: "x \<in> set xs \<Longrightarrow> f x = Inl e \<Longrightarrow> \<exists>e'. apply_col f xs = Inl e'"
  by (induction xs) (auto split: sum.splits)

lemma length_pct_change [simp]: "length (pct_change xs) = length xs"
  by (simp add: pct_change_def shift1_def)

lemma length_rolling_mean [simp]: "length (rolling_mean w xs) = length xs"
  by (simp add: rolling_mean_def)

lemma map_nth_upt: "length xs = n \<Longrightarrow> map (\<lambda>i. xs ! i) [0..<n] = xs"
  using map_nth [of xs] by auto

lemma load_data_InrE:
  assumes "load_data csv = Inr df"
  obtains sups res smin smax rmin rmax where
    "apply_col parse_cell (map Support (sort_key (ts_key \<circ> Date) csv)) = Inr sups"
    "apply_col parse_cell (map Resistance (sort_key (ts_key \<circ> Date) csv)) = Inr res"
    "apply_col py_min sups = Inr smin" "apply_col py_max sups = Inr smax"
    "apply_col py_min res = Inr rmin" "apply_col py_max res = Inr rmax"
    "df = map (\<lambda>(r, s, t, s0, s1, t0, t1, d, m).
           \<lparr>Date = Date r, Open = Open r, High = High r, Low = Low r, Close = Close r,
            Support = s, Resistance = t, Direction = Direction r,
            Support_min = s0, Support_max = s1, Resistance_min = t0, Resistance_max = t1,
            Daily_Return = d, MA20 = m\<rparr>)
          (zip (sort_key (ts_key \<circ> Date) csv) (zip sups (zip res (zip smin (zip smax (zip rmin (zip rmax
            (zip (map (lift_fin (\<lambda>x. x * 100)) (pct_change (map Close (sort_key (ts_key \<circ> Date) csv))))
                 (rolling_mean 20 (map Close (sort_key (ts_key \<circ> Date) csv)))))))))))"
  using assms unfolding load_data_def Let_def
  by (auto split: sum.splits)

lemma load_data_cols:
  assumes "load_data csv = Inr df"
  shows "map Date df = map Date (sort_key (ts_key \<circ> Date) csv)"
    and "map Open df = map Open (sort_key (ts_key \<circ> Date) csv)"
    and "map High df = map High (sort_key (ts_key \<circ> Date) csv)"
    and "map Low df = map Low (sort_key (ts_key \<circ> Date) csv)"
    and "map Close df = map Close (sort_key (ts_key \<circ> Date) csv)"
    and "map Direction df = map Direction (sort_key (ts_key \<circ> Date) csv)"
    and "apply_col parse_cell (map Support (sort_key (ts_key \<circ> Date) csv)) = Inr (map Support df)"
    and "apply_col parse_cell (map Resistance (sort_key (ts_key \<circ> Date) csv)) = Inr (map Resistance df)"
    and "apply_col py_min (map Support df) = Inr (map Support_min df)"
    and "apply_col py_max (map Support df) = Inr (map Support_max df)"
    and "apply_col py_min (map Resistance df) = Inr (map Resistance_min df)"
    and "apply_col py_max (map Resistance df) = Inr (map Resistance_max df)"
    and "map Daily_Return df = map (lift_fin (\<lambda>x. x * 100)) (pct_change (map Close df))"
    and "map MA20 df = rolling_mean 20 (map Close df)"
    and "length df = length csv"
proof -
  let ?s = "sort_key (ts_key \<circ> Date) csv"
  from assms obtain sups res smin smax rmin rmax where
    a: "apply_col parse_cell (map Support ?s) = Inr sups"
    "apply_col parse_cell (map Resistance ?s) = Inr res"
    "apply_col py_min sups = Inr smin" "apply_col py_max sups = Inr smax"
    "apply_col py_min res = Inr rmin" "apply_col py_max res = Inr rmax"
   and df: "df = map (\<lambda>(r, s, t, s0, s1, t0, t1, d, m).
           \<lparr>Date = Date r, Open = Open r, High = High r, Low = Low r, Close = Close r,
            Support = s, Resistance = t, Direction = Direction r,
            Support_min = s0, Support_max = s1, Resistance_min = t0, Resistance_max = t1,
            Daily_Return = d, MA20 = m\<rparr>)
          (zip ?s (zip sups (zip res (zip smin (zip smax (zip rmin (zip rmax
            (zip (map (lift_fin (\<lambda>x. x * 100)) (pct_change (map Close ?s)))
                 (rolling_mean 20 (map Close ?s))))))))))"
    by (rule load_data_InrE)
  have l: "length sups = length csv" "length res = length csv" "length smin = length csv"
    "length smax = length csv" "length rmin = length csv" "length rmax = length csv"
    using a by (auto dest!: apply_col_length)
  show len: "length df = length csv" by (simp add: df l)
  show "map Date df = map Date ?s"
    by (rule nth_equalityI) (simp_all add: df l split_beta)
  show "map Open df = map Open ?s"
    by (rule nth_equalityI) (simp_all add: df l split_beta)
  show "map High df = map High ?s"
    by (rule nth_equalityI) (simp_all add: df l split_beta)
  show "map Low df = map Low ?s"
    by (rule nth_equalityI) (simp_all add: df l split_beta)
  show c: "map Close df = map Close ?s"
    by (rule nth_equalityI) (simp_all add: df l split_beta)
  show "map Direction df = map Direction ?s"
    by (rule nth_equalityI) (simp_all add: df l split_beta)
  have s1: "map Support df = sups"
    by (rule nth_equalityI) (simp_all add: df l split_beta)
  have s2: "map Resistance df = res"
    by (rule nth_equalityI) (simp_all add: df l split_beta)
  have s3: "map Support_min df = smin"
    by (rule nth_equalityI) (simp_all add: df l split_beta)
  have s4: "map Support_max df = smax"
    by (rule nth_equalityI) (simp_all add: df l split_beta)
  have s5: "map Resistance_min df = rmin"
    by (rule nth_equalityI) (simp_all add: df l split_beta)
  have s6: "map Resistance_max df = rmax"
    by (rule nth_equalityI) (simp_all add: df l split_beta)
  show "apply_col parse_cell (map Support ?s) = Inr (map Support df)"
    "apply_col parse_cell (map Resistance ?s) = Inr (map Resistance df)"
    "apply_col py_min (map Support df) = Inr (map Support_min df)"
    "apply_col py_max (map Support df) = Inr (map Support_max df)"
    "apply_col py_min (map Resistance df) = Inr (map Resistance_min df)"
    "apply_col py_max (map Resistance df) = Inr (map Resistance_max df)"
    using a by (simp_all add: s1 s2 s3 s4 s5 s6)
  have "map Daily_Return df = map (lift_fin (\<lambda>x. x * 100)) (pct_change (map Close ?s))"
    by (rule nth_equalityI) (simp_all add: df l split_beta)
  then show "map Daily_Return df = map (lift_fin (\<lambda>x. x * 100)) (pct_change (map Close df))"
    by (simp add: c)
  have "map MA20 df = rolling_mean 20 (map Close ?s)"
    by (rule nth_equalityI) (simp_all add: df l split_beta)
  then show "map MA20 df = rolling_mean 20 (map Close df)"
    by (simp add: c)
qed


subsection \<open>The sample inputs, loaded\<close>

lemma eval_support: "literal_eval ''[100, 105]'' = Inr (PList [100, 105])"
  by code_simp

lemma eval_resistance: "literal_eval ''[120, 125]'' = Inr (PList [120, 125])"
  by code_simp

lemmas load_simps = load_data_def example_row_def example_out_def ts_key_def parse_cell_def
  eval_support eval_resistance py_min_def py_max_def pct_change_def shift1_def
  rolling_mean_def fdiv_def lift_fin_def upt_rec

lemma load_example: "load_data example_csv = Inr example_df"
  by (simp add: example_csv_def example_df_def load_simps)

lemmas strftime_simps = strftime_def pad4_def pad2_def digit_char_def

subsection \<open>Dates as strings\<close>

lemma digit_cases:
  assumes "k < (10::nat)"
  obtains "k = 0" | "k = 1" | "k = 2" | "k = 3" | "k = 4" | "k = 5" | "k = 6" | "k = 7"
    | "k = 8" | "k = 9"
  using assms by atomize_elim arith

lemma is_digit_digit_char: "is_digit (digit_char n)"
proof -
  have "n mod 10 < 10" by simp
  then show ?thesis
    by (rule digit_cases) (simp_all add: digit_char_def is_digit_def)
qed

lemma digit_val_digit_char: "digit_val (digit_char n) = n mod 10"
proof -
  have "n mod 10 < 10" by simp
  then show ?thesis
    by (rule digit_cases) (simp_all add: digit_char_def digit_val_def)
qed

lemma iso8601_strftime: "iso8601_date (strftime t)"
  by (simp add: iso8601_date_def strftime_def pad4_def pad2_def is_digit_digit_char)

lemma digits_compose:
  fixes n :: nat
  assumes "n = 10 * a + r0" and "a = 10 * b + r1" and "b = 10 * c + r2"
  shows "1000 * c + 100 * r2 + 10 * r1 + r0 = n"
  using assms by simp

lemma four_digits:
  assumes "n < 10000"
  shows "1000 * (n div 1000 mod 10) + 100 * (n div 100 mod 10) + 10 * (n div 10 mod 10) + n mod 10 = (n::nat)"
proof -
  have a: "n div 1000 mod 10 = n div 1000" using assms by simp
  have b: "n = 10 * (n div 10) + n mod 10" by simp
  have "n div 10 = 10 * (n div 10 div 10) + n div 10 mod 10" by simp
  then have c: "n div 10 = 10 * (n div 100) + n div 10 mod 10"
    by (simp add: div_mult2_eq [symmetric])
  have "n div 100 = 10 * (n div 100 div 10) + n div 100 mod 10" by simp
  then have d: "n div 100 = 10 * (n div 1000) + n div 100 mod 10"
    by (simp add: div_mult2_eq [symmetric])
  show ?thesis
    unfolding a by (rule digits_compose [OF b c d])
qed

lemma parse_iso_strftime:
  assumes "valid_ts t"
  shows "parse_iso (strftime t) = Some (date_of t)"
proof -
  have y: "year t < 10000" and m: "month t < 100" and d: "day t < 100"
    using assms by (simp_all add: valid_ts_def)
  have "parse_iso (strftime t) =
      Some (10 * (10 * (10 * (year t div 1000 mod 10) + year t div 100 mod 10) + year t div 10 mod 10) + year t mod 10,
            10 * (month t div 10 mod 10) + month t mod 10,
            10 * (day t div 10 mod 10) + day t mod 10)"
    using iso8601_strftime [of t]
    by (simp add: parse_iso_def strftime_def pad4_def pad2_def nat_of_digits_def digit_val_digit_char)
  then show ?thesis
    using m d by (simp add: four_digits [OF y] date_of_def)
qed

section \<open>The candlestick series and the markers\<close>

lemma candlesticks_eq:
  "candlesticks df =
     map (\<lambda>r. [(''time'', VStr (strftime (Date r))), (''open'', VFloat (Fin (Open r))),
                (''high'', VFloat (Fin (High r))), (''low'', VFloat (Fin (Low r))),
                (''close'', VFloat (Fin (Close r)))]) df"
  by (simp add: candlesticks_def select_def assign_def row_dict_def)

lemma sorted_load_data:
  assumes "load_data csv = Inr df"
  shows "sorted (map (\<lambda>r. ts_key (Date r)) df)"
proof -
  have "map (\<lambda>r. ts_key (Date r)) df = map ts_key (map Date df)" by simp
  also have "\<dots> = map (ts_key \<circ> Date) (sort_key (ts_key \<circ> Date) csv)"
    by (simp add: load_data_cols(1) [OF assms])
  finally show ?thesis by (simp only: sorted_sort_key)
qed

lemma sorted_date_filter:
  assumes "sorted (map (\<lambda>r. ts_key (Date r)) df)"
  shows "sorted (map (\<lambda>r. ts_key (Date r)) (date_filter df date_range))"
  using assms by (simp add: date_filter_def Let_def sorted_filter)

lemma set_date_filter: "set (date_filter df date_range) \<subseteq> set df"
  by (auto simp: date_filter_def Let_def)

lemma dates_load_data:
  assumes "load_data csv = Inr df"
  shows "Date ` set df = Date ` set csv"
proof -
  have "set (map Date df) = set (map Date (sort_key (ts_key \<circ> Date) csv))"
    by (simp only: load_data_cols(1) [OF assms])
  then show ?thesis by simp
qed

text \<open>
  C1. For every loaded table, every date range and every setting of the three switches
  the run gives the candlestick series, with one record of time, open, high, low and
  close per row of the (filtered) table and in its order; the time is the row's date
  written as an ISO 8601 calendar date, and the rows are in ascending date order.
\<close>

theorem candle_series:
  assumes "load_data csv = Inr df" and "list_all (\<lambda>r. valid_ts (Date r)) csv"
  shows "\<exists>ch. dashboard csv date_range show_ma show_bands show_markers = Inr ch
     \<and> cs_data ch =
         map (\<lambda>r. [(''time'', VStr (strftime (Date r))), (''open'', VFloat (Fin (Open r))),
                    (''high'', VFloat (Fin (High r))), (''low'', VFloat (Fin (Low r))),
                    (''close'', VFloat (Fin (Close r)))]) (date_filter df date_range)
     \<and> list_all (\<lambda>r. iso8601_date (strftime (Date r))
                      \<and> parse_iso (strftime (Date r)) = Some (date_of (Date r)))
          (date_filter df date_range)
     \<and> sorted (map (\<lambda>r. ts_key (Date r)) (date_filter df date_range))"
proof -
  have valid: "valid_ts (Date r)" if "r \<in> set (date_filter df date_range)" for r
  proof -
    have "Date r \<in> Date ` set df" using that set_date_filter by blast
    then have "Date r \<in> Date ` set csv" by (simp only: dates_load_data [OF assms(1)])
    then show ?thesis using assms(2) by (auto simp: list_all_iff)
  qed
  have "list_all (\<lambda>r. iso8601_date (strftime (Date r))
                      \<and> parse_iso (strftime (Date r)) = Some (date_of (Date r)))
          (date_filter df date_range)"
    unfolding list_all_iff using valid by (simp add: iso8601_strftime parse_iso_strftime)
  moreover have "sorted (map (\<lambda>r. ts_key (Date r)) (date_filter df date_range))"
    by (rule sorted_date_filter [OF sorted_load_data [OF assms(1)]])
  ultimately show ?thesis
    by (simp add: dashboard_def assms(1) chart_tab_def candlesticks_eq)
qed

lemma valid_example: "list_all (\<lambda>r. valid_ts (Date r)) example_csv"
  by (simp add: example_csv_def example_row_def valid_ts_def)

theorem candle_series_witness:
  "\<exists>ch. dashboard example_csv [] False False False = Inr ch
     \<and> cs_data ch =
        [[(''time'', VStr ''2024-01-01''), (''open'', VFloat (Fin 99)), (''high'', VFloat (Fin 102)),
          (''low'', VFloat (Fin 98)), (''close'', VFloat (Fin 100))],
         [(''time'', VStr ''2024-01-02''), (''open'', VFloat (Fin 101)), (''high'', VFloat (Fin 104)),
          (''low'', VFloat (Fin 100)), (''close'', VFloat (Fin 102))],
         [(''time'', VStr ''2024-01-03''), (''open'', VFloat (Fin 98)), (''high'', VFloat (Fin 101)),
          (''low'', VFloat (Fin 97)), (''close'', VFloat (Fin 99))]]"
  using candle_series [OF load_example valid_example, of "[]" False False False]
  by (clarsimp simp: date_filter_def example_df_def example_out_def strftime_simps)

text \<open>
  C2. With the markers switched on, the chart gets one marker per row, in row order,
  and the placement, colour and shape of a marker depend on the row's direction alone:
  \<^verbatim>\<open>LONG\<close> gives below the bar, green, arrow up; \<^verbatim>\<open>SHORT\<close> gives above the bar, red,
  arrow down; any other direction gives in the bar, yellow, circle.
\<close>

theorem markers_by_direction:
  assumes "show_markers"
  shows "cs_markers (chart_tab df show_ma show_bands show_markers) =
     Some (map (\<lambda>r. [(''time'', VStr (strftime (Date r))),
                      (''position'', VStr (if Direction r = ''LONG'' then ''belowBar''
                          else if Direction r = ''SHORT'' then ''aboveBar'' else ''inBar'')),
                      (''color'', VStr (if Direction r = ''LONG'' then ''green''
                          else if Direction r = ''SHORT'' then ''red'' else ''yellow'')),
                      (''shape'', VStr (if Direction r = ''LONG'' then ''arrowUp''
                          else if Direction r = ''SHORT'' then ''arrowDown'' else ''circle''))]) df)"
  using assms by (simp add: chart_tab_def markers_def marker_def)

theorem markers_by_direction_witness:
  "cs_markers (chart_tab example_df False False True) =
     Some [[(''time'', VStr ''2024-01-01''), (''position'', VStr ''belowBar''),
            (''color'', VStr ''green''), (''shape'', VStr ''arrowUp'')],
           [(''time'', VStr ''2024-01-02''), (''position'', VStr ''aboveBar''),
            (''color'', VStr ''red''), (''shape'', VStr ''arrowDown'')],
           [(''time'', VStr ''2024-01-03''), (''position'', VStr ''inBar''),
            (''color'', VStr ''yellow''), (''shape'', VStr ''circle'')]]"
  using markers_by_direction [of True example_df False False]
  by (simp add: example_df_def example_out_def strftime_simps)

section \<open>Daily return\<close>

lemma pct_change_nth:
  assumes "i < length xs"
  shows "pct_change xs ! i =
    (case i of 0 \<Rightarrow> NaN | Suc j \<Rightarrow> lift_fin (\<lambda>x. x - 1) (fdiv (xs ! i) (xs ! j)))"
  using assms by (cases i) (simp_all add: pct_change_def shift1_def)

lemma column_nth: "i < length df \<Longrightarrow> f (df ! i) = map f df ! i"
  by simp

lemma Daily_Return_nth:
  assumes "load_data csv = Inr df" and "i < length df"
  shows "Daily_Return (df ! i) =
    (case i of 0 \<Rightarrow> NaN
     | Suc j \<Rightarrow> lift_fin (\<lambda>x. x * 100) (lift_fin (\<lambda>x. x - 1) (fdiv (Close (df ! i)) (Close (df ! j)))))"
proof -
  have "Daily_Return (df ! i) = map (lift_fin (\<lambda>x. x * 100)) (pct_change (map Close df)) ! i"
    using assms(2) by (simp only: column_nth load_data_cols(13) [OF assms(1)])
  also have "\<dots> = lift_fin (\<lambda>x. x * 100) (pct_change (map Close df) ! i)"
    using assms(2) by simp
  also have "\<dots> = (case i of 0 \<Rightarrow> NaN
     | Suc j \<Rightarrow> lift_fin (\<lambda>x. x * 100) (lift_fin (\<lambda>x. x - 1) (fdiv (Close (df ! i)) (Close (df ! j)))))"
    using assms(2) by (cases i) (simp_all add: pct_change_nth lift_fin_def)
  finally show ?thesis .
qed




section \<open>The moving average line\<close>

lemma rolling_mean_nth:
  assumes "i < length xs"
  shows "rolling_mean w xs ! i =
    (if i + 1 < w then NaN else Fin (sum_list (take w (drop (i + 1 - w) xs)) / real w))"
  using assms by (simp add: rolling_mean_def)

lemma sum_list_window:
  fixes xs :: "real list"
  assumes "k + w \<le> length xs"
  shows "sum_list (take w (drop k xs)) = (\<Sum>j = k..<k + w. xs ! j)"
proof -
  have len: "length (take w (drop k xs)) = w" using assms by simp
  have "sum_list (take w (drop k xs)) = (\<Sum>j = 0..<w. take w (drop k xs) ! j)"
    using sum_list_sum_nth [of "take w (drop k xs)"] by (simp only: len)
  also have "\<dots> = (\<Sum>j = 0..<w. xs ! (j + k))"
    using assms by (intro sum.cong) (simp_all add: add.commute)
  also have "\<dots> = (\<Sum>j = k..<k + w. xs ! j)"
    using sum.shift_bounds_nat_ivl [of "\<lambda>j. xs ! j" 0 k w] by (simp add: add.commute)
  finally show ?thesis .
qed

lemma MA20_nth:
  assumes "load_data csv = Inr df" and "i < length df"
  shows "MA20 (df ! i) =
    (if i < 19 then NaN else Fin ((\<Sum>j = i - 19..i. Close (df ! j)) / 20))"
proof -
  have "MA20 (df ! i) = rolling_mean 20 (map Close df) ! i"
    using assms(2) by (simp only: column_nth load_data_cols(14) [OF assms(1)])
  also have "\<dots> = (if i + 1 < 20 then NaN
      else Fin (sum_list (take 20 (drop (i + 1 - 20) (map Close df))) / real 20))"
    using assms(2) by (simp only: rolling_mean_nth length_map)
  finally have m: "MA20 (df ! i) = (if i < 19 then NaN
      else Fin (sum_list (take 20 (drop (i - 19) (map Close df))) / 20))"
    by simp
  show ?thesis
  proof (cases "i < 19")
    case True
    then show ?thesis using m by simp
  next
    case False
    then have "i - 19 + 20 \<le> length (map Close df)" using assms(2) by simp
    then have "sum_list (take 20 (drop (i - 19) (map Close df))) =
        (\<Sum>j = i - 19..<i - 19 + 20. map Close df ! j)"
      by (rule sum_list_window)
    also have "\<dots> = (\<Sum>j = i - 19..<i - 19 + 20. Close (df ! j))"
      using assms(2) False by (intro sum.cong) simp_all
    also have "{i - 19..<i - 19 + 20} = {i - 19..i}"
      using False by auto
    finally show ?thesis using m False by simp
  qed
qed

lemma ma20_eq:
  "ma20 df = map (\<lambda>r. [(''time'', VStr (strftime (Date r))), (''value'', VFloat (MA20 r))])
               (filter (\<lambda>r. MA20 r \<noteq> NaN) df)"
  by (simp add: ma20_def dropna_def select_def assign_def row_dict_def is_na_def filter_map o_def)

lemma filter_eq_drop:
  assumes "\<And>i. i < length xs \<Longrightarrow> P (xs ! i) \<longleftrightarrow> n \<le> i"
  shows "filter P xs = drop n xs"
proof -
  have a: "filter P (take n xs) = []"
    using assms by (auto simp: filter_empty_conv in_set_conv_nth)
  have "\<And>x. x \<in> set (drop n xs) \<Longrightarrow> P x"
  proof -
    fix x assume "x \<in> set (drop n xs)"
    then obtain k where "k < length (drop n xs)" "x = drop n xs ! k"
      by (auto simp: in_set_conv_nth)
    then have "n + k < length xs" "x = xs ! (n + k)" by simp_all
    then show "P x" using assms [of "n + k"] by simp
  qed
  then have b: "filter P (drop n xs) = drop n xs" by (simp add: filter_id_conv)
  have "filter P xs = filter P (take n xs @ drop n xs)" by simp
  also have "\<dots> = drop n xs" by (simp only: filter_append a b append_Nil)
  finally show ?thesis .
qed

text \<open>
  C5. With the moving average switched on, the line series of the loaded table has one
  point of time and value per row from the twentieth on and none for the first
  nineteen; the value of row \<open>i\<close> (counted from 0, so \<open>i \<ge> 19\<close>) is the mean of the closes
  of rows \<open>i - 19\<close> to \<open>i\<close>. After a date filter the series has one point per remaining
  row whose average is not NaN. No point has the value NaN.
\<close>

theorem ma20_line_series:
  assumes "load_data csv = Inr df" and "show_ma"
  shows "ls_data (chart_tab df show_ma show_bands show_markers) =
      Some (map (\<lambda>r. [(''time'', VStr (strftime (Date r))), (''value'', VFloat (MA20 r))])
                (drop 19 df))
    \<and> (\<forall>i<length df. MA20 (df ! i) =
          (if i < 19 then NaN else Fin ((\<Sum>j = i - 19..i. Close (df ! j)) / 20)))
    \<and> ls_data (chart_tab (date_filter df date_range) show_ma show_bands show_markers) =
      Some (map (\<lambda>r. [(''time'', VStr (strftime (Date r))), (''value'', VFloat (MA20 r))])
                (filter (\<lambda>r. MA20 r \<noteq> NaN) (date_filter df date_range)))"
proof -
  have "filter (\<lambda>r. MA20 r \<noteq> NaN) df = drop 19 df"
    by (rule filter_eq_drop) (simp add: MA20_nth [OF assms(1)])
  then show ?thesis
    using assms(2) by (simp add: chart_tab_def ma20_eq MA20_nth [OF assms(1)])
qed

lemma apply_col_total:
  assumes "\<And>x. x \<in> set xs \<Longrightarrow> \<exists>y. f x = Inr y"
  shows "\<exists>ys. apply_col f xs = Inr ys"
  using assms
proof (induction xs)
  case Nil
  then show ?case by simp
next
  case (Cons x xs)
  obtain y where "f x = Inr y" using Cons.prems [of x] by auto
  moreover obtain ys where "apply_col f xs = Inr ys" using Cons by auto
  ultimately show ?case by simp
qed

lemma apply_col_set:
  assumes "apply_col f xs = Inr ys" and "y \<in> set ys"
  shows "\<exists>x\<in>set xs. f x = Inr y"
proof -
  have "Inr y \<in> set (map Inr ys)" using assms(2) by simp
  then have "Inr y \<in> set (map f xs)" using assms(1) by (simp only: apply_col_Inr_iff)
  then show ?thesis by auto
qed

lemma py_max_of_min: "py_min v = Inr x \<Longrightarrow> \<exists>y. py_max v = Inr y"
  by (auto simp: py_min_def py_max_def split: pyval.splits list.splits)

lemma load_data_succeeds:
  assumes "\<And>r. r \<in> set csv \<Longrightarrow> \<exists>v x. parse_cell (Support r) = Inr v \<and> py_min v = Inr x"
      and "\<And>r. r \<in> set csv \<Longrightarrow> \<exists>v x. parse_cell (Resistance r) = Inr v \<and> py_min v = Inr x"
  shows "\<exists>df. load_data csv = Inr df"
proof -
  let ?s = "sort_key (ts_key \<circ> Date) csv"
  have s: "set ?s = set csv" by simp
  have "\<exists>ys. apply_col parse_cell (map Support ?s) = Inr ys"
    by (rule apply_col_total) (use assms(1) s in auto)
  then obtain sups where sups: "apply_col parse_cell (map Support ?s) = Inr sups" ..
  have "\<exists>ys. apply_col parse_cell (map Resistance ?s) = Inr ys"
    by (rule apply_col_total) (use assms(2) s in auto)
  then obtain res where res: "apply_col parse_cell (map Resistance ?s) = Inr res" ..
  have min_s: "\<exists>x. py_min v = Inr x" if v: "v \<in> set sups" for v
  proof -
    obtain c where "c \<in> set (map Support ?s)" "parse_cell c = Inr v"
      using apply_col_set [OF sups v] by auto
    then obtain r where "r \<in> set csv" "parse_cell (Support r) = Inr v" using s by auto
    then show ?thesis using assms(1) [of r] by auto
  qed
  have min_r: "\<exists>x. py_min v = Inr x" if v: "v \<in> set res" for v
  proof -
    obtain c where "c \<in> set (map Resistance ?s)" "parse_cell c = Inr v"
      using apply_col_set [OF res v] by auto
    then obtain r where "r \<in> set csv" "parse_cell (Resistance r) = Inr v" using s by auto
    then show ?thesis using assms(2) [of r] by auto
  qed
  obtain smin where smin: "apply_col py_min sups = Inr smin"
    using apply_col_total [of sups py_min] min_s by auto
  obtain smax where smax: "apply_col py_max sups = Inr smax"
    using apply_col_total [of sups py_max] min_s py_max_of_min by blast
  obtain rmin where rmin: "apply_col py_min res = Inr rmin"
    using apply_col_total [of res py_min] min_r by auto
  obtain rmax where rmax: "apply_col py_max res = Inr rmax"
    using apply_col_total [of res py_max] min_r py_max_of_min by blast
  show ?thesis
    unfolding load_data_def Let_def by (simp add: sups res smin smax rmin rmax)
qed

lemma sort_trend: "sort_key (ts_key \<circ> Date) trend_csv = trend_csv"
proof -
  have "sorted_wrt (\<lambda>x y. x < y \<or> x \<le> y) [Suc 0..<21]"
    by (rule sorted_wrt_mono_rel [OF _ sorted_wrt_upt]) simp
  then have "sorted (map (ts_key \<circ> Date) trend_csv)"
    by (simp add: trend_csv_def example_row_def ts_key_def o_def sorted_map)
  then show ?thesis by (rule sort_key_id_if_sorted)
qed

lemma load_trend: "\<exists>df. load_data trend_csv = Inr df"
  by (rule load_data_succeeds)
    (auto simp: trend_csv_def example_row_def parse_cell_def eval_support eval_resistance py_min_def)

lemma roll_trend: "rolling_mean 20 (map real [1..<21]) ! 19 = Fin (21 / 2)"
  by code_simp

lemma trend_columns:
  assumes "load_data trend_csv = Inr df"
  shows "length df = 20"
    and "Date (df ! 19) = \<lparr>year = 2024, month = 1, day = 20, tod = 0\<rparr>"
    and "MA20 (df ! 19) = Fin (21 / 2)"
    and "Close (df ! 18) = 19" and "Close (df ! 19) = 20"
proof -
  show l: "length df = 20" using load_data_cols(15) [OF assms] by (simp add: trend_csv_def)
  have d: "map Date df = map Date trend_csv"
    by (simp only: load_data_cols(1) [OF assms] sort_trend)
  have "Date (df ! 19) = map Date trend_csv ! 19"
    using l by (simp only: d [symmetric]) simp
  then show "Date (df ! 19) = \<lparr>year = 2024, month = 1, day = 20, tod = 0\<rparr>"
    by (simp add: trend_csv_def example_row_def)
  have c: "map Close df = map real [1..<21]"
    by (simp only: load_data_cols(5) [OF assms] sort_trend) (simp add: trend_csv_def example_row_def)
  have "MA20 (df ! 19) = map MA20 df ! 19" using l by simp
  then show "MA20 (df ! 19) = Fin (21 / 2)"
    by (simp only: load_data_cols(14) [OF assms] c roll_trend)
  have "Close (df ! 18) = map Close df ! 18" "Close (df ! 19) = map Close df ! 19"
    using l by simp_all
  then show "Close (df ! 18) = 19" "Close (df ! 19) = 20"
    by (simp_all only: c) simp_all
qed

theorem ma20_line_series_witness:
  "\<exists>df. load_data trend_csv = Inr df \<and> length df = 20
     \<and> ls_data (chart_tab df True False False) =
         Some [[(''time'', VStr ''2024-01-20''), (''value'', VFloat (Fin (21 / 2)))]]"
proof -
  obtain df where df: "load_data trend_csv = Inr df" using load_trend ..
  note t = trend_columns [OF df]
  have "drop 19 df = [df ! 19]"
    using Cons_nth_drop_Suc [of 19 df] t(1) by simp
  then have "ls_data (chart_tab df True False False) =
         Some [[(''time'', VStr ''2024-01-20''), (''value'', VFloat (Fin (21 / 2)))]]"
    using ma20_line_series [OF df, of True False False "[]"]
    by (simp add: t strftime_simps)
  then show ?thesis using df t(1) by blast
qed

section \<open>Sorting and the date filter\<close>

lemma load_twice: "load_data twice_csv = Inr twice_df"
  by (simp add: twice_csv_def twice_df_def load_simps)

lemma load_intraday: "load_data intraday_csv = Inr intraday_df"
  by (simp add: intraday_csv_def intraday_df_def load_simps)

lemma inj_ts_key: "inj ts_key"
  by (rule injI) (simp add: ts_key_def)

text \<open>
  C9, as the code has it. The loaded table is sorted by date in ascending order and has
  the dates of the input, each as often as the input has it: \<^verbatim>\<open>load_data\<close> drops no row.
  When no two input rows have the same date, the dates increase strictly.
\<close>

theorem load_data_sorted:
  assumes "load_data csv = Inr df"
  shows "sorted (map (\<lambda>r. ts_key (Date r)) df)
    \<and> mset (map Date df) = mset (map Date csv)
    \<and> (distinct (map Date csv) \<longrightarrow>
         distinct (map Date df) \<and> sorted_wrt (\<lambda>a b. ts_key (Date a) < ts_key (Date b)) df)"
proof -
  have s: "sorted (map (\<lambda>r. ts_key (Date r)) df)" by (rule sorted_load_data [OF assms])
  have "map Date df = map Date (sort_key (ts_key \<circ> Date) csv)"
    by (rule load_data_cols(1) [OF assms])
  then have m: "mset (map Date df) = mset (map Date csv)" by simp
  have "distinct (map Date df) \<and> sorted_wrt (\<lambda>a b. ts_key (Date a) < ts_key (Date b)) df"
    if d: "distinct (map Date csv)"
  proof -
    have dd: "distinct (map Date df)" using mset_eq_imp_distinct_iff [OF m] d by simp
    then have "distinct (map ts_key (map Date df))"
      using inj_ts_key by (simp only: distinct_map) (auto intro: inj_on_subset)
    then have "sorted_wrt (<) (map (\<lambda>r. ts_key (Date r)) df)"
      using s by (simp add: strict_sorted_iff o_def)
    then show ?thesis using dd by (simp add: sorted_wrt_map)
  qed
  then show ?thesis using s m by blast
qed

theorem load_data_sorted_witness:
  "load_data example_csv = Inr example_df
    \<and> distinct (map Date example_csv)
    \<and> map (\<lambda>r. day (Date r)) example_df = [1, 2, 3]
    \<and> sorted_wrt (\<lambda>a b. ts_key (Date a) < ts_key (Date b)) example_df"
  using load_data_sorted [OF load_example] load_example
  by (simp add: example_csv_def example_row_def example_df_def example_out_def)

theorem duplicate_dates_kept:
  "load_data twice_csv = Inr twice_df \<and> \<not> distinct (map Date twice_df)"
  using load_twice by (simp add: twice_df_def example_out_def)

lemma midnight_le: "ts_key (to_datetime d) \<le> ts_key t \<longleftrightarrow> d \<le> date_of t"
  by (cases d) (auto simp: ts_key_def to_datetime_def date_of_def)

lemma le_midnight:
  "ts_key t \<le> ts_key (to_datetime d) \<longleftrightarrow> date_of t < d \<or> date_of t = d \<and> tod t = 0"
  by (cases d) (auto simp: ts_key_def to_datetime_def date_of_def)

lemma date_filter_two:
  "date_filter df [start, end] =
     filter (\<lambda>r. start \<le> date_of (Date r)
                \<and> (date_of (Date r) < end \<or> date_of (Date r) = end \<and> tod (Date r) = 0)) df"
  by (simp add: date_filter_def midnight_le le_midnight)

text \<open>
  C6, as the code has it. With two dates the filter keeps exactly the rows whose
  timestamp lies between midnight of the first and midnight of the second: the rows of
  a day from the first date up to the day before the second, and of the second date's
  day those stamped midnight. On a table whose rows are all stamped midnight this is
  the calendar filter, both ends included. The run does not fail in the filter: when
  no row is in the range, the series are those of the empty table.
\<close>

theorem date_filter_range:
  assumes "load_data csv = Inr df"
  shows "date_filter df [start, end] =
       filter (\<lambda>r. start \<le> date_of (Date r)
                  \<and> (date_of (Date r) < end \<or> date_of (Date r) = end \<and> tod (Date r) = 0)) df
    \<and> (list_all (\<lambda>r. tod (Date r) = 0) df \<longrightarrow>
         date_filter df [start, end] = calendar_filter df start end)
    \<and> dashboard csv [start, end] show_ma show_bands show_markers =
         Inr (chart_tab (date_filter df [start, end]) show_ma show_bands show_markers)
    \<and> (calendar_filter df start end = [] \<longrightarrow>
         dashboard csv [start, end] show_ma show_bands show_markers =
           Inr (chart_tab [] show_ma show_bands show_markers))"
proof -
  have a: "date_filter df [start, end] = calendar_filter df start end"
    if "list_all (\<lambda>r. tod (Date r) = 0) df"
    unfolding date_filter_two calendar_filter_def
    using that by (intro filter_cong) (auto simp: list_all_iff)
  have b: "date_filter df [start, end] = []" if "calendar_filter df start end = []"
    using that unfolding date_filter_two calendar_filter_def
    by (auto simp: filter_empty_conv)
  show ?thesis
    using a b by (simp add: dashboard_def assms date_filter_two)
qed

theorem date_filter_range_witness:
  "load_data example_csv = Inr example_df
    \<and> list_all (\<lambda>r. tod (Date r) = 0) example_df
    \<and> date_filter example_df [(2024, 1, 2), (2024, 1, 3)] = calendar_filter example_df (2024, 1, 2) (2024, 1, 3)
    \<and> map (\<lambda>r. day (Date r)) (date_filter example_df [(2024, 1, 2), (2024, 1, 3)]) = [2, 3]
    \<and> calendar_filter example_df (2025, 1, 1) (2025, 1, 2) = []
    \<and> dashboard example_csv [(2025, 1, 1), (2025, 1, 2)] False False False =
         Inr (chart_tab [] False False False)"
  using date_filter_range [OF load_example, of "(2024, 1, 2)" "(2024, 1, 3)" False False False]
    date_filter_range [OF load_example, of "(2025, 1, 1)" "(2025, 1, 2)" False False False]
    load_example
  by (simp add: example_df_def example_out_def calendar_filter_def date_of_def)

theorem time_of_day_not_ignored:
  "load_data intraday_csv = Inr intraday_df
    \<and> calendar_filter intraday_df (2024, 1, 2) (2024, 1, 2) = intraday_df
    \<and> intraday_df \<noteq> []
    \<and> date_filter intraday_df [(2024, 1, 2), (2024, 1, 2)] = []"
  using load_intraday
  by (simp add: intraday_df_def example_out_def calendar_filter_def date_filter_two date_of_def)

text \<open>
  C7, as the code has it. No date range makes the run fail: when the second date is
  before the first, the filter keeps no row and the chart gets the series of the empty
  table.
\<close>

theorem date_filter_reversed:
  assumes "end < start"
  shows "date_filter df [start, end] = []
    \<and> (load_data csv = Inr df \<longrightarrow>
         dashboard csv [start, end] show_ma show_bands show_markers =
           Inr (chart_tab [] show_ma show_bands show_markers))"
proof -
  have "date_filter df [start, end] = []"
    unfolding date_filter_two using assms by (auto simp: filter_empty_conv)
  then show ?thesis by (simp add: dashboard_def)
qed

theorem date_filter_reversed_witness:
  "((2024, 1, 1) :: date) < (2024, 1, 3)
    \<and> date_filter example_df [(2024, 1, 3), (2024, 1, 1)] = []
    \<and> dashboard example_csv [(2024, 1, 3), (2024, 1, 1)] True True True =
         Inr (chart_tab [] True True True)"
proof -
  have h: "((2024, 1, 1) :: date) < (2024, 1, 3)" by simp
  show ?thesis
    using date_filter_reversed [OF h, of example_df example_csv True True True] h load_example
    by simp
qed

theorem reversed_range_accepted:
  "dashboard example_csv [(2024, 1, 3), (2024, 1, 1)] True True True =
     Inr \<lparr>cs_data = [], cs_markers = Some [], ls_data = Some [],
          as1_data = Some [], as2_data = Some []\<rparr>"
  by (simp add: dashboard_def load_example date_filter_two example_df_def example_out_def date_of_def
      chart_tab_def candlesticks_def markers_def ma20_def dropna_def supp_def rs_def)

section \<open>Cells that do not parse\<close>












section \<open>Rows after the filter, and the band series\<close>

lemma subseq_date_filter: "subseq (date_filter df date_range) df"
  by (simp add: date_filter_def Let_def)

lemma trend_date:
  assumes "load_data trend_csv = Inr df" and "i < 20"
  shows "Date (df ! i) = \<lparr>year = 2024, month = 1, day = Suc i, tod = 0\<rparr>"
proof -
  have l: "length df = 20" by (rule trend_columns(1) [OF assms(1)])
  have d: "map Date df = map Date trend_csv"
    by (simp only: load_data_cols(1) [OF assms(1)] sort_trend)
  have "Date (df ! i) = map Date df ! i" using l assms(2) by simp
  also have "\<dots> = map Date trend_csv ! i" by (simp only: d)
  also have "\<dots> = \<lparr>year = 2024, month = 1, day = Suc i, tod = 0\<rparr>"
    using assms(2) by (simp add: trend_csv_def example_row_def)
  finally show ?thesis .
qed

lemma trend_last_day:
  assumes "load_data trend_csv = Inr df"
  shows "date_filter df [(2024, 1, 20), (2024, 1, 20)] = [df ! 19]"
proof -
  have l: "length df = 20" by (rule trend_columns(1) [OF assms])
  have "date_filter df [(2024, 1, 20), (2024, 1, 20)] = drop 19 df"
    unfolding date_filter_two
    by (rule filter_eq_drop) (auto simp: l trend_date [OF assms] date_of_def)
  also have "\<dots> = [df ! 19]" using Cons_nth_drop_Suc [of 19 df] l by simp
  finally show ?thesis .
qed

text \<open>
  C10. The date filter only drops rows: the filtered table is a subsequence of the
  loaded one, so every kept row has all its fields as loaded, and the chart is built
  from these rows with no column computed again. Hence, when the first kept row is row
  \<open>i\<close> of the loaded table, its daily return and moving average are those of row \<open>i\<close>,
  computed from rows before it that the filter dropped.
\<close>

theorem filter_keeps_rows:
  assumes "load_data csv = Inr df"
  shows "subseq (date_filter df date_range) df
    \<and> dashboard csv date_range show_ma show_bands show_markers =
         Inr (chart_tab (date_filter df date_range) show_ma show_bands show_markers)
    \<and> (\<forall>i. 0 < i \<and> i < length df \<and> date_filter df date_range \<noteq> []
            \<and> hd (date_filter df date_range) = df ! i \<longrightarrow>
          Daily_Return (hd (date_filter df date_range)) =
            lift_fin (\<lambda>x. x * 100) (lift_fin (\<lambda>x. x - 1) (fdiv (Close (df ! i)) (Close (df ! (i - 1)))))
          \<and> MA20 (hd (date_filter df date_range)) =
            (if i < 19 then NaN else Fin ((\<Sum>j = i - 19..i. Close (df ! j)) / 20)))"
proof -
  have "Daily_Return (df ! i) =
      lift_fin (\<lambda>x. x * 100) (lift_fin (\<lambda>x. x - 1) (fdiv (Close (df ! i)) (Close (df ! (i - 1)))))"
    if "0 < i" "i < length df" for i
    using Daily_Return_nth [OF assms that(2)] that(1) by (cases i) simp_all
  then show ?thesis
    by (simp add: subseq_date_filter dashboard_def assms MA20_nth [OF assms])
qed

theorem filter_keeps_rows_witness:
  "\<exists>df. load_data trend_csv = Inr df \<and> length df = 20
     \<and> date_filter df [(2024, 1, 20), (2024, 1, 20)] = [df ! 19]
     \<and> Daily_Return (hd (date_filter df [(2024, 1, 20), (2024, 1, 20)])) = Fin (100 / 19)
     \<and> MA20 (hd (date_filter df [(2024, 1, 20), (2024, 1, 20)])) = Fin (21 / 2)"
proof -
  obtain df where df: "load_data trend_csv = Inr df" using load_trend ..
  note t = trend_columns [OF df]
  note f = trend_last_day [OF df]
  have k: "Daily_Return (hd [df ! 19]) =
        lift_fin (\<lambda>x. x * 100) (lift_fin (\<lambda>x. x - 1) (fdiv (Close (df ! 19)) (Close (df ! (19 - 1)))))"
    using filter_keeps_rows [OF df, of "[(2024, 1, 20), (2024, 1, 20)]" False False False, unfolded f]
      t(1) by simp
  have "Daily_Return (hd (date_filter df [(2024, 1, 20), (2024, 1, 20)])) = Fin (100 / 19)
     \<and> MA20 (hd (date_filter df [(2024, 1, 20), (2024, 1, 20)])) = Fin (21 / 2)"
    unfolding f using k by (simp add: t fdiv_def lift_fin_def)
  then show ?thesis using df t(1) f by blast
qed

text \<open>
  C3, on the code. With the bands switched on the chart gets two area series with one
  record per row, but a record is the whole row of the frame with \<^verbatim>\<open>time\<close>, \<^verbatim>\<open>low\<close> and
  \<^verbatim>\<open>high\<close> added: unlike the candlestick and line series, the band frames are turned
  into records without the columns being selected first. For the table of one row:
\<close>

theorem band_records_carry_frame:
  "dashboard [example_row 1 100 ''LONG''] [] False True False =
     Inr \<lparr>cs_data = [[(''time'', VStr ''2024-01-01''), (''open'', VFloat (Fin 99)),
                      (''high'', VFloat (Fin 102)), (''low'', VFloat (Fin 98)),
                      (''close'', VFloat (Fin 100))]],
          cs_markers = None, ls_data = None,
          as1_data = Some [[(''Date'', VTime \<lparr>year = 2024, month = 1, day = 1, tod = 0\<rparr>),
                            (''Open'', VFloat (Fin 99)), (''High'', VFloat (Fin 102)),
                            (''Low'', VFloat (Fin 98)), (''Close'', VFloat (Fin 100)),
                            (''Support'', VObj (PList [100, 105])),
                            (''Resistance'', VObj (PList [120, 125])),
                            (''Direction'', VStr ''LONG''),
                            (''Support_min'', VFloat (Fin 100)), (''Support_max'', VFloat (Fin 105)),
                            (''Resistance_min'', VFloat (Fin 120)), (''Resistance_max'', VFloat (Fin 125)),
                            (''Daily_Return'', VFloat NaN), (''MA20'', VFloat NaN),
                            (''time'', VStr ''2024-01-01''), (''low'', VFloat (Fin 100)),
                            (''high'', VFloat (Fin 105))]],
          as2_data = Some [[(''Date'', VTime \<lparr>year = 2024, month = 1, day = 1, tod = 0\<rparr>),
                            (''Open'', VFloat (Fin 99)), (''High'', VFloat (Fin 102)),
                            (''Low'', VFloat (Fin 98)), (''Close'', VFloat (Fin 100)),
                            (''Support'', VObj (PList [100, 105])),
                            (''Resistance'', VObj (PList [120, 125])),
                            (''Direction'', VStr ''LONG''),
                            (''Support_min'', VFloat (Fin 100)), (''Support_max'', VFloat (Fin 105)),
                            (''Resistance_min'', VFloat (Fin 120)), (''Resistance_max'', VFloat (Fin 125)),
                            (''Daily_Return'', VFloat NaN), (''MA20'', VFloat NaN),
                            (''time'', VStr ''2024-01-01''), (''low'', VFloat (Fin 120)),
                            (''high'', VFloat (Fin 125))]]\<rparr>"
proof -
  have "load_data [example_row 1 100 ''LONG''] = Inr [example_out 1 100 ''LONG'' NaN]"
    by (simp add: load_simps)
  then show ?thesis
    by (simp add: dashboard_def date_filter_def chart_tab_def candlesticks_eq supp_def rs_def
        assign_def row_dict_def example_out_def strftime_simps)
qed

end
